theory Spec2Isabelle
  imports Complex_Main "HOL-Library.Log_Nat"
begin

section \<open>Data model (shared/schema.ts)\<close>

text \<open>
  The rows of the tables \<open>users\<close>, \<open>positions\<close>, \<open>candidates\<close> and \<open>votes\<close>.
  Field names are the source's, prefixed by the table since several tables have an
  \<open>id\<close> and a \<open>name\<close>. Nullable columns are options; serial and integer columns are
  integers.
\<close>

record user =
  user_id :: int
  user_name :: string
  user_referenceNumber :: string
  user_isAdmin :: bool
  user_hasVoted :: bool
  user_schoolLevel :: "string option"
  user_gradeLevel :: "int option"

text \<open>\<open>insertUserSchema\<close>: the picked columns of \<open>users\<close>.\<close>

record insertUser =
  new_name :: string
  new_referenceNumber :: string
  new_isAdmin :: "bool option"
  new_schoolLevel :: "string option"
  new_gradeLevel :: "int option"

record position =
  position_id :: int
  position_name :: string
  position_maxVotes :: int
  position_schoolLevels :: "string list"
  position_displayOrder :: int

record candidate =
  candidate_id :: int
  candidate_name :: string
  candidate_photo :: "string option"
  candidate_positionId :: int
  candidate_partylistId :: int
  candidate_schoolLevels :: "string list"
  candidate_gradeLevels :: "int list"

text \<open>\<open>insertVoteSchema\<close>: the three picked columns of \<open>votes\<close>.\<close>

record insertVote =
  vote_userId :: int
  vote_candidateId :: int
  vote_positionId :: int

text \<open>A tuple of \<open>storage.getVoteCounts()\<close>, as the statistics handler reads it.\<close>

record voteCount =
  vc_positionId :: int
  vc_candidateId :: int
  vc_count :: nat

text \<open>
  The user object kept in the session by the login handler: the stored user without its
  reference number.
\<close>

record session_user =
  sess_id :: int
  sess_name :: string
  sess_isAdmin :: bool
  sess_hasVoted :: bool
  sess_schoolLevel :: "string option"
  sess_gradeLevel :: "int option"

section \<open>The storage object (server/storage.ts)\<close>

text \<open>
  The handlers of server/routes.ts reach the store only through the methods of the
  object \<open>storage\<close>. A store is a value of type \<open>'s\<close>; a method that reads is a
  function of the store, a method that writes returns the store it leaves behind
  together with its result. \<open>null\<close> is \<open>None\<close>.
\<close>

record 's storage_api =
  getUserByReferenceNumber :: "'s \<Rightarrow> string \<Rightarrow> user option"
  getUser :: "'s \<Rightarrow> int \<Rightarrow> user option"
  createUser :: "'s \<Rightarrow> insertUser \<Rightarrow> 's \<times> user"
  getAllUsers :: "'s \<Rightarrow> user list"
  resetUserVote :: "'s \<Rightarrow> int \<Rightarrow> 's \<times> user option"
  getAllPositions :: "'s \<Rightarrow> position list"
  getPosition :: "'s \<Rightarrow> int \<Rightarrow> position option"
  getAllCandidates :: "'s \<Rightarrow> candidate list"
  getCandidate :: "'s \<Rightarrow> int \<Rightarrow> candidate option"
  createVote :: "'s \<Rightarrow> insertVote \<Rightarrow> 's \<times> insertVote"
  getVoteCounts :: "'s \<Rightarrow> voteCount list"

text \<open>
  The object the repository ships. Every method but the first is a placeholder that
  ignores the database: the readers answer \<open>null\<close> or \<open>[]\<close>, \<open>createUser\<close> and
  \<open>createVote\<close> hand their argument back without storing it, \<open>resetUserVote\<close> answers
  \<open>null\<close>. Whatever the store holds, none of them changes it.
\<close>

definition hardcoded_admin :: user where
  "hardcoded_admin =
     \<lparr>user_id = 1, user_name = ''admin'', user_referenceNumber = ''ARSC2025'',
      user_isAdmin = True, user_hasVoted = False,
      user_schoolLevel = None, user_gradeLevel = None\<rparr>"

definition storage :: "'s storage_api" where
  "storage =
     \<lparr>getUserByReferenceNumber =
        (\<lambda>s referenceNumber.
           if referenceNumber = ''ARSC2025'' then Some hardcoded_admin else None),
      getUser = (\<lambda>s i. None),
      createUser =
        (\<lambda>s data.
           (s, \<lparr>user_id = 1, user_name = new_name data,
                user_referenceNumber = new_referenceNumber data,
                user_isAdmin = False, user_hasVoted = False,
                user_schoolLevel = new_schoolLevel data,
                user_gradeLevel = new_gradeLevel data\<rparr>)),
      getAllUsers = (\<lambda>s. []),
      resetUserVote = (\<lambda>s i. (s, None)),
      getAllPositions = (\<lambda>s. []),
      getPosition = (\<lambda>s i. None),
      getAllCandidates = (\<lambda>s. []),
      getCandidate = (\<lambda>s i. None),
      createVote = (\<lambda>s data. (s, data)),
      getVoteCounts = (\<lambda>s. [])\<rparr>"

section \<open>JavaScript numbers\<close>

text \<open>
  The percentages of the statistics are JavaScript numbers, that is IEEE 754 doubles. A
  finite double is the rational it denotes; the result of an operation is the exact
  result rounded to the nearest number with a significand of 53 bits, a tie going to the
  even significand. The numbers of this program are counts, quotients of counts and
  their products with 100: they are not negative, and with counts below \<open>2^53\<close> they
  stay far from the overflow and underflow thresholds, which are left out.
\<close>

datatype number = Finite rat | Infinity | NaN

definition pow2 :: "int \<Rightarrow> rat" where
  "pow2 e = (if 0 \<le> e then 2 ^ nat e else 1 / 2 ^ nat (- e))"

text \<open>The binary exponent of a positive rational \<open>x\<close>: \<open>2^e \<le> x < 2^(e+1)\<close>.\<close>

definition exponent :: "rat \<Rightarrow> int" where
  "exponent x =
     (case quotient_of x of
        (p, q) \<Rightarrow>
          (let d = bitlen p - bitlen q
           in if pow2 d \<le> x then d else d - 1))"

definition round_to_double :: "rat \<Rightarrow> rat" where
  "round_to_double x =
     (if x = 0 then 0
      else
        (let ulp = pow2 (exponent \<bar>x\<bar> - 52);
             q = \<bar>x\<bar> / ulp;
             n = \<lfloor>q\<rfloor>;
             r = q - of_int n;
             m = (if r < 1 / 2 then n
                  else if 1 / 2 < r then n + 1
                  else if even n then n else n + 1)
         in sgn x * (of_int m * ulp)))"

text \<open>
  \<open>a / b\<close> for two counts: \<open>0 / 0\<close> is \<open>NaN\<close> and a positive count over \<open>0\<close> is
  \<open>Infinity\<close>.
\<close>

definition js_div :: "nat \<Rightarrow> nat \<Rightarrow> number" where
  "js_div a b =
     (if b = 0 then (if a = 0 then NaN else Infinity)
      else Finite (round_to_double (of_nat a / of_nat b)))"

text \<open>\<open>x * y\<close> for numbers that are not negative.\<close>

fun js_mul :: "number \<Rightarrow> number \<Rightarrow> number" where
  "js_mul (Finite a) (Finite b) = Finite (round_to_double (a * b))"
| "js_mul NaN y = NaN"
| "js_mul x NaN = NaN"
| "js_mul Infinity (Finite b) = (if b = 0 then NaN else Infinity)"
| "js_mul (Finite a) Infinity = (if a = 0 then NaN else Infinity)"
| "js_mul Infinity Infinity = Infinity"

section \<open>The statistics report of GET /api/votes/stats (server/routes.ts)\<close>

record summary =
  sum_totalStudents :: nat
  sum_votedStudents :: nat
  sum_participationRate :: number

record positionVotes =
  pv_positionId :: int
  pv_positionName :: string
  pv_votes :: nat
  pv_percentage :: number

record schoolLevelVotes =
  lv_schoolLevel :: string
  lv_totalStudents :: nat
  lv_votedStudents :: nat
  lv_percentage :: number

record candidateVotes =
  cv_candidateId :: int
  cv_candidateName :: string
  cv_votes :: nat
  cv_percentage :: number

record positionCandidates =
  pc_positionId :: int
  pc_positionName :: string
  pc_candidates :: "candidateVotes list"

record stats =
  stats_summary :: summary
  stats_votesByPosition :: "positionVotes list"
  stats_votesBySchoolLevel :: "schoolLevelVotes list"
  stats_votesByCandidateAndPosition :: "positionCandidates list"

text \<open>The three numbers of the summary, from the array \<open>users\<close> of \<open>getAllUsers\<close>.\<close>

definition totalStudents :: "user list \<Rightarrow> nat" where
  "totalStudents users = length (filter (\<lambda>u. \<not> user_isAdmin u) users)"

definition votedStudents :: "user list \<Rightarrow> nat" where
  "votedStudents users =
     length (filter (\<lambda>u. \<not> user_isAdmin u \<and> user_hasVoted u) users)"

definition participationRate :: "user list \<Rightarrow> number" where
  "participationRate users =
     (if totalStudents users > 0
      then js_mul (js_div (votedStudents users) (totalStudents users)) (Finite 100)
      else Finite 0)"

definition votesByPosition ::
  "voteCount list \<Rightarrow> position list \<Rightarrow> user list \<Rightarrow> positionVotes list" where
  "votesByPosition voteCounts positions users =
     map (\<lambda>position.
            let positionVotes =
                  foldl (\<lambda>sum vc. sum + vc_count vc) 0
                    (filter (\<lambda>vc. vc_positionId vc = position_id position) voteCounts)
            in \<lparr>pv_positionId = position_id position,
                pv_positionName = position_name position,
                pv_votes = positionVotes,
                pv_percentage =
                  (if totalStudents users > 0
                   then js_mul (js_div positionVotes (totalStudents users)) (Finite 100)
                   else Finite 0)\<rparr>)
         positions"

definition schoolLevels :: "string list" where
  "schoolLevels = [''elementary'', ''juniorHigh'', ''seniorHigh'']"

definition votesBySchoolLevel :: "user list \<Rightarrow> schoolLevelVotes list" where
  "votesBySchoolLevel users =
     map (\<lambda>level.
            let levelUsers =
                  filter (\<lambda>u. \<not> user_isAdmin u \<and> user_schoolLevel u = Some level) users;
                levelVotedUsers = filter (\<lambda>u. user_hasVoted u) levelUsers
            in \<lparr>lv_schoolLevel = level,
                lv_totalStudents = length levelUsers,
                lv_votedStudents = length levelVotedUsers,
                lv_percentage =
                  (if length levelUsers > 0
                   then js_mul (js_div (length levelVotedUsers) (length levelUsers))
                          (Finite 100)
                   else Finite 0)\<rparr>)
         schoolLevels"

text \<open>
  \<open>voteCounts.find(...)?.count || 0\<close>: the count of the first tuple of the position and
  candidate, \<open>0\<close> when there is none.
\<close>

definition voteCount_of :: "voteCount list \<Rightarrow> position \<Rightarrow> candidate \<Rightarrow> nat" where
  "voteCount_of voteCounts position candidate =
     (case find (\<lambda>vc. vc_positionId vc = position_id position
                       \<and> vc_candidateId vc = candidate_id candidate) voteCounts of
        None \<Rightarrow> 0
      | Some vc \<Rightarrow> vc_count vc)"

definition votesByCandidateAndPosition ::
  "voteCount list \<Rightarrow> position list \<Rightarrow> user list \<Rightarrow> candidate list \<Rightarrow>
     positionCandidates list" where
  "votesByCandidateAndPosition voteCounts positions users candidates =
     map (\<lambda>position.
            let positionCandidates =
                  filter (\<lambda>c. candidate_positionId c = position_id position) candidates;
                candidateResults =
                  map (\<lambda>candidate.
                         let voteCount = voteCount_of voteCounts position candidate
                         in \<lparr>cv_candidateId = candidate_id candidate,
                             cv_candidateName = candidate_name candidate,
                             cv_votes = voteCount,
                             cv_percentage =
                               (if totalStudents users > 0
                                then js_mul (js_div voteCount (totalStudents users))
                                       (Finite 100)
                                else Finite 0)\<rparr>)
                      positionCandidates
            in \<lparr>pc_positionId = position_id position,
                pc_positionName = position_name position,
                pc_candidates = candidateResults\<rparr>)
         positions"

definition vote_stats ::
  "voteCount list \<Rightarrow> position list \<Rightarrow> user list \<Rightarrow> candidate list \<Rightarrow> stats" where
  "vote_stats voteCounts positions users candidates =
     \<lparr>stats_summary =
        \<lparr>sum_totalStudents = totalStudents users,
         sum_votedStudents = votedStudents users,
         sum_participationRate = participationRate users\<rparr>,
      stats_votesByPosition = votesByPosition voteCounts positions users,
      stats_votesBySchoolLevel = votesBySchoolLevel users,
      stats_votesByCandidateAndPosition =
        votesByCandidateAndPosition voteCounts positions users candidates\<rparr>"

section \<open>Responses\<close>

text \<open>
  A response is the HTTP status with the JSON body: a \<open>message\<close> object for the
  failures, the entity otherwise.
\<close>

datatype body =
    Message string
  | VoteJson insertVote
  | UserJson user
  | StatsJson stats

type_synonym response = "nat \<times> body"


section \<open>POST /api/votes (server/routes.ts)\<close>

text \<open>
  The request body carries \<open>positionId\<close> and \<open>candidateId\<close>; they are integers here,
  the type \<open>storage.getPosition\<close> and \<open>storage.getCandidate\<close> declare for their
  argument.
\<close>

record vote_request =
  req_candidateId :: int
  req_positionId :: int

text \<open>
  \<open>insertVoteSchema\<close> is \<open>createInsertSchema(votes).pick(...)\<close>: what it accepts is
  decided by the library \<open>drizzle-zod\<close>, which is not among the sources and whose
  version they do not fix. \<open>insertVoteSchema.parse\<close> is therefore a parameter of the
  handler: it returns the parsed vote, or throws a \<open>ZodError\<close>, which the handler
  catches and answers with 400 and the message of the error.
\<close>

datatype zodError = ZodError string

text \<open>
  The handler, check by check in the order of the source. It returns the response, the
  session user it leaves in the session, and the store.
\<close>

definition post_votes ::
  "(insertVote \<Rightarrow> zodError + insertVote) \<Rightarrow> 's storage_api \<Rightarrow>
     session_user option \<Rightarrow> 's \<Rightarrow> vote_request \<Rightarrow>
     response \<times> session_user option \<times> 's" where
  "post_votes insertVoteSchema_parse st sess s req =
     (case sess of
        None \<Rightarrow> ((401, Message ''Not authenticated''), sess, s)
      | Some user \<Rightarrow>
          (case getUser st s (sess_id user) of
             None \<Rightarrow> ((404, Message ''User not found''), sess, s)
           | Some userRecord \<Rightarrow>
               (case getPosition st s (req_positionId req) of
                  None \<Rightarrow> ((404, Message ''Position not found''), sess, s)
                | Some position \<Rightarrow>
                    (case getCandidate st s (req_candidateId req) of
                       None \<Rightarrow> ((404, Message ''Candidate not found''), sess, s)
                     | Some candidate \<Rightarrow>
                         if candidate_positionId candidate \<noteq> position_id position
                         then ((400, Message ''Candidate is not for this position''), sess, s)
                         else
                           (case insertVoteSchema_parse
                                   \<lparr>vote_userId = sess_id user,
                                    vote_candidateId = req_candidateId req,
                                    vote_positionId = req_positionId req\<rparr> of
                              Inl (ZodError m) \<Rightarrow> ((400, Message m), sess, s)
                            | Inr voteData \<Rightarrow>
                                (case createVote st s voteData of
                                   (s', vote) \<Rightarrow>
                                     ((201, VoteJson vote),
                                      Some (user\<lparr>sess_hasVoted := True\<rparr>), s')))))))"

section \<open>POST /api/users (server/routes.ts)\<close>

text \<open>
  \<open>insertUserSchema.parse(req.body)\<close> is a parameter as well, for the same reason; the
  request body is of any type \<open>'b\<close>, and the handler reads it through the parse only.
  The parse comes after the test of the session and before the lookup of the
  reference number.
\<close>

definition post_users ::
  "('b \<Rightarrow> zodError + insertUser) \<Rightarrow> 's storage_api \<Rightarrow>
     session_user option \<Rightarrow> 's \<Rightarrow> 'b \<Rightarrow> response \<times> 's" where
  "post_users insertUserSchema_parse st sess s req =
     (case sess of
        None \<Rightarrow> ((403, Message ''Unauthorized''), s)
      | Some user \<Rightarrow>
          if \<not> sess_isAdmin user then ((403, Message ''Unauthorized''), s)
          else
            (case insertUserSchema_parse req of
               Inl (ZodError m) \<Rightarrow> ((400, Message m), s)
             | Inr data \<Rightarrow>
                 (case getUserByReferenceNumber st s (new_referenceNumber data) of
                    Some existingUser \<Rightarrow>
                      ((409, Message ''User with this reference number already exists''), s)
                  | None \<Rightarrow>
                      (case createUser st s data of
                         (s', newUser) \<Rightarrow> ((201, UserJson newUser), s')))))"

section \<open>POST /api/users/:id/reset-vote (server/routes.ts)\<close>

text \<open>
  The path parameter is taken after \<open>parseInt\<close>: \<open>None\<close> is \<open>NaN\<close>. The handler checks
  the store after \<open>storage.resetUserVote\<close> only through the user it returns.
\<close>

definition post_users_reset_vote ::
  "'s storage_api \<Rightarrow> session_user option \<Rightarrow> 's \<Rightarrow> int option \<Rightarrow> response \<times> 's" where
  "post_users_reset_vote st sess s param =
     (case sess of
        None \<Rightarrow> ((403, Message ''Unauthorized''), s)
      | Some user \<Rightarrow>
          if \<not> sess_isAdmin user then ((403, Message ''Unauthorized''), s)
          else
            (case param of
               None \<Rightarrow> ((400, Message ''Invalid ID''), s)
             | Some i \<Rightarrow>
                 (case resetUserVote st s i of
                    (s', None) \<Rightarrow> ((404, Message ''User not found''), s')
                  | (s', Some updatedUser) \<Rightarrow> ((200, UserJson updatedUser), s'))))"

section \<open>GET /api/votes/stats (server/routes.ts)\<close>

definition get_votes_stats ::
  "'s storage_api \<Rightarrow> session_user option \<Rightarrow> 's \<Rightarrow> response" where
  "get_votes_stats st sess s =
     (case sess of
        None \<Rightarrow> (403, Message ''Unauthorized'')
      | Some user \<Rightarrow>
          if \<not> sess_isAdmin user then (403, Message ''Unauthorized'')
          else
            (200, StatsJson
               (vote_stats (getVoteCounts st s) (getAllPositions st s)
                  (getAllUsers st s) (getAllCandidates st s))))"

section \<open>Runs of the server\<close>

text \<open>
  A request arrives with the session user of its sender. The server answers requests
  one after the other; what a run leaves behind is the store.
\<close>

datatype 'b request =
    PostVotes vote_request
  | PostUsers 'b
  | PostResetVote "int option"

definition handle ::
  "(insertVote \<Rightarrow> zodError + insertVote) \<Rightarrow> ('b \<Rightarrow> zodError + insertUser) \<Rightarrow>
     's storage_api \<Rightarrow> 's \<Rightarrow> session_user option \<times> 'b request \<Rightarrow> 's" where
  "handle insertVoteSchema_parse insertUserSchema_parse st s r =
     (case r of
        (sess, PostVotes req) \<Rightarrow> snd (snd (post_votes insertVoteSchema_parse st sess s req))
      | (sess, PostUsers req) \<Rightarrow> snd (post_users insertUserSchema_parse st sess s req)
      | (sess, PostResetVote param) \<Rightarrow> snd (post_users_reset_vote st sess s param))"

definition serve ::
  "(insertVote \<Rightarrow> zodError + insertVote) \<Rightarrow> ('b \<Rightarrow> zodError + insertUser) \<Rightarrow>
     's storage_api \<Rightarrow> 's \<Rightarrow> (session_user option \<times> 'b request) list \<Rightarrow> 's" where
  "serve insertVoteSchema_parse insertUserSchema_parse st s rs =
     foldl (handle insertVoteSchema_parse insertUserSchema_parse st) s rs"

text \<open>The integrity constraint of the vote table: one vote per user and position.\<close>

definition unique_votes :: "insertVote list \<Rightarrow> bool" where
  "unique_votes vs = distinct (map (\<lambda>v. (vote_userId v, vote_positionId v)) vs)"

section \<open>Instances of the store and of the schemas\<close>

text \<open>
  The handlers take the store and the two schemas as parameters. The shipped storage
  object answers no lookup, so the branches of the handlers behind a lookup are reached
  only with another store. The definitions of this section are such instances of the
  parameters; they stand for no code of the repository, and serve where a theorem
  about every store or every schema is applied to one.

  The first store keeps four tables. It is the shipped object with four methods
  exchanged: the three lookups search the table by \<open>id\<close>, and \<open>createVote\<close> appends
  the vote it is given.
\<close>

record tables =
  tbl_users :: "user list"
  tbl_positions :: "position list"
  tbl_candidates :: "candidate list"
  tbl_votes :: "insertVote list"

definition table_storage :: "tables storage_api" where
  "table_storage =
     storage
       \<lparr>getUser := (\<lambda>s i. find (\<lambda>u. user_id u = i) (tbl_users s)),
        getPosition := (\<lambda>s i. find (\<lambda>p. position_id p = i) (tbl_positions s)),
        getCandidate := (\<lambda>s i. find (\<lambda>c. candidate_id c = i) (tbl_candidates s)),
        createVote := (\<lambda>s data. (s\<lparr>tbl_votes := tbl_votes s @ [data]\<rparr>, data))\<rparr>"

text \<open>
  The second store holds the four lists the statistics handler reads, and is the
  shipped object with the four readers exchanged for the fields.
\<close>

record report_rows =
  rows_voteCounts :: "voteCount list"
  rows_positions :: "position list"
  rows_users :: "user list"
  rows_candidates :: "candidate list"

definition rows_storage :: "report_rows storage_api" where
  "rows_storage =
     storage
       \<lparr>getVoteCounts := rows_voteCounts,
        getAllPositions := rows_positions,
        getAllUsers := rows_users,
        getAllCandidates := rows_candidates\<rparr>"

text \<open>
  A schema for the vote that accepts the 32-bit integers in each of the three columns,
  as \<open>drizzle-zod 0.7.0\<close> bounds a PostgreSQL \<open>integer\<close> column, and hands back the
  record it accepts.
\<close>

definition int32 :: "int \<Rightarrow> bool" where
  "int32 i = (- 2147483648 \<le> i \<and> i \<le> 2147483647)"

definition int32_vote_schema :: "insertVote \<Rightarrow> zodError + insertVote" where
  "int32_vote_schema data =
     (if int32 (vote_userId data) \<and> int32 (vote_candidateId data)
         \<and> int32 (vote_positionId data)
      then Inr data
      else Inl (ZodError ''Number out of range''))"

text \<open>
  A request body for the creation of a user, each key present or not, and a schema for
  it: \<open>name\<close> and \<open>referenceNumber\<close>, the two columns that are \<open>notNull\<close> and have no
  default, are required, and \<open>gradeLevel\<close> is a 32-bit integer when it is given.
\<close>

record user_body =
  body_name :: "string option"
  body_referenceNumber :: "string option"
  body_isAdmin :: "bool option"
  body_schoolLevel :: "string option"
  body_gradeLevel :: "int option"

definition user_body_schema :: "user_body \<Rightarrow> zodError + insertUser" where
  "user_body_schema b =
     (case (body_name b, body_referenceNumber b) of
        (Some n, Some r) \<Rightarrow>
          (if (case body_gradeLevel b of None \<Rightarrow> True | Some g \<Rightarrow> int32 g)
           then Inr \<lparr>new_name = n, new_referenceNumber = r, new_isAdmin = body_isAdmin b,
                     new_schoolLevel = body_schoolLevel b,
                     new_gradeLevel = body_gradeLevel b\<rparr>
           else Inl (ZodError ''Number out of range''))
      | _ \<Rightarrow> Inl (ZodError ''Required''))"

text \<open>
  A small election: the position of president, offered to senior high, with two
  candidates for senior high grades 11 and 12, and a third whose id is beyond the 32-bit
  integers; a second position; and one student of elementary grade 3.
\<close>

definition president :: position where
  "president =
     \<lparr>position_id = 1, position_name = ''President'', position_maxVotes = 1,
      position_schoolLevels = [''seniorHigh''], position_displayOrder = 1\<rparr>"

definition treasurer :: position where
  "treasurer =
     \<lparr>position_id = 2, position_name = ''Treasurer'', position_maxVotes = 1,
      position_schoolLevels = [''elementary''], position_displayOrder = 2\<rparr>"

definition alice :: candidate where
  "alice =
     \<lparr>candidate_id = 10, candidate_name = ''Alice'', candidate_photo = None,
      candidate_positionId = 1, candidate_partylistId = 1,
      candidate_schoolLevels = [''seniorHigh''], candidate_gradeLevels = [11, 12]\<rparr>"

definition bob :: candidate where
  "bob =
     \<lparr>candidate_id = 11, candidate_name = ''Bob'', candidate_photo = None,
      candidate_positionId = 1, candidate_partylistId = 2,
      candidate_schoolLevels = [''seniorHigh''], candidate_gradeLevels = [11, 12]\<rparr>"


definition student :: user where
  "student =
     \<lparr>user_id = 2, user_name = ''Uma'', user_referenceNumber = ''R1'',
      user_isAdmin = False, user_hasVoted = False,
      user_schoolLevel = Some ''elementary'', user_gradeLevel = Some 3\<rparr>"

definition student_session :: session_user where
  "student_session =
     \<lparr>sess_id = 2, sess_name = ''Uma'', sess_isAdmin = False, sess_hasVoted = False,
      sess_schoolLevel = Some ''elementary'', sess_gradeLevel = Some 3\<rparr>"

definition election :: tables where
  "election =
     \<lparr>tbl_users = [student], tbl_positions = [president, treasurer],
      tbl_candidates = [alice, bob], tbl_votes = []\<rparr>"

definition admin_session :: session_user where
  "admin_session =
     \<lparr>sess_id = 1, sess_name = ''admin'', sess_isAdmin = True, sess_hasVoted = False,
      sess_schoolLevel = None, sess_gradeLevel = None\<rparr>"

text \<open>The same election after the student has voted for Alice as president.\<close>

definition vote_for_alice :: insertVote where
  "vote_for_alice = \<lparr>vote_userId = 2, vote_candidateId = 10, vote_positionId = 1\<rparr>"

definition vote_for_bob :: insertVote where
  "vote_for_bob = \<lparr>vote_userId = 2, vote_candidateId = 11, vote_positionId = 1\<rparr>"

definition election_after_vote :: tables where
  "election_after_vote =
     \<lparr>tbl_users = [student\<lparr>user_hasVoted := True\<rparr>],
      tbl_positions = [president, treasurer],
      tbl_candidates = [alice, bob], tbl_votes = [vote_for_alice]\<rparr>"

text \<open>Two bodies with the reference number of the hardcoded administrator.\<close>

definition duplicate_body :: user_body where
  "duplicate_body =
     \<lparr>body_name = Some ''Eve'', body_referenceNumber = Some ''ARSC2025'',
      body_isAdmin = None, body_schoolLevel = None, body_gradeLevel = None\<rparr>"


text \<open>
  A school of ten students, five in elementary and five in senior high, and the
  administrator. Only the senior high students are offered the position of president.
  The vote counts hold a tuple of another position for the candidate with id 10 before
  the tuple of the president.
\<close>

definition pupil :: "int \<Rightarrow> string \<Rightarrow> int \<Rightarrow> bool \<Rightarrow> user" where
  "pupil i level grade voted =
     \<lparr>user_id = i, user_name = ''pupil'', user_referenceNumber = ''R'',
      user_isAdmin = False, user_hasVoted = voted,
      user_schoolLevel = Some level, user_gradeLevel = Some grade\<rparr>"

definition school :: "user list" where
  "school =
     [hardcoded_admin,
      pupil 2 ''elementary'' 3 False, pupil 3 ''elementary'' 4 False,
      pupil 4 ''elementary'' 5 False, pupil 5 ''elementary'' 6 False,
      pupil 6 ''elementary'' 6 False,
      pupil 7 ''seniorHigh'' 11 True, pupil 8 ''seniorHigh'' 11 True,
      pupil 9 ''seniorHigh'' 12 True, pupil 10 ''seniorHigh'' 12 True,
      pupil 11 ''seniorHigh'' 12 False]"

definition tally :: "voteCount list" where
  "tally =
     [\<lparr>vc_positionId = 2, vc_candidateId = 10, vc_count = 7\<rparr>,
      \<lparr>vc_positionId = 1, vc_candidateId = 10, vc_count = 4\<rparr>]"

definition school_rows :: report_rows where
  "school_rows =
     \<lparr>rows_voteCounts = tally, rows_positions = [president],
      rows_users = school, rows_candidates = [alice, bob]\<rparr>"

section \<open>Properties of the vote handler\<close>

text \<open>
  C10. An authenticated submission whose session user the store does not return fails
  with 404 "User not found", whatever \<open>getPosition\<close> and \<open>getCandidate\<close> would answer,
  and leaves session and store as they were. The shipped \<open>storage.getUser\<close> answers
  \<open>null\<close> for every id, so with it every authenticated submission ends there.
\<close>

theorem post_votes_user_not_found:
  "(getUser st s (sess_id user) = None \<longrightarrow>
      post_votes parse st (Some user) s req
        = ((404, Message ''User not found''), Some user, s))
   \<and> post_votes parse storage (Some user) s0 req
        = ((404, Message ''User not found''), Some user, s0)"
  by (simp add: post_votes_def storage_def)

theorem post_votes_user_not_found_witness:
  "getUser table_storage (election\<lparr>tbl_users := []\<rparr>) (sess_id student_session) = None
   \<and> getPosition table_storage (election\<lparr>tbl_users := []\<rparr>) 1 = Some president
   \<and> getCandidate table_storage (election\<lparr>tbl_users := []\<rparr>) 10 = Some alice
   \<and> post_votes int32_vote_schema table_storage (Some student_session)
        (election\<lparr>tbl_users := []\<rparr>) \<lparr>req_candidateId = 10, req_positionId = 1\<rparr>
      = ((404, Message ''User not found''), Some student_session, election\<lparr>tbl_users := []\<rparr>)
   \<and> post_votes int32_vote_schema storage (Some student_session) election
        \<lparr>req_candidateId = 10, req_positionId = 1\<rparr>
      = ((404, Message ''User not found''), Some student_session, election)"
  using post_votes_user_not_found
          [of table_storage "election\<lparr>tbl_users := []\<rparr>" student_session
              int32_vote_schema
              "\<lparr>req_candidateId = 10, req_positionId = 1\<rparr>" election]
  by (simp add: table_storage_def storage_def election_def student_session_def
        president_def treasurer_def alice_def bob_def)




text \<open>
  C4, as stated, fails: with position and candidate in the store and the candidate of
  another position, a submission without a session user is answered 401, and one whose
  session user the store does not return is answered 404, not 400.
\<close>

theorem post_votes_inconsistent_counterexample:
  "getPosition table_storage (election\<lparr>tbl_users := []\<rparr>) 2 = Some treasurer
   \<and> getCandidate table_storage (election\<lparr>tbl_users := []\<rparr>) 10 = Some alice
   \<and> candidate_positionId alice \<noteq> position_id treasurer
   \<and> fst (post_votes int32_vote_schema table_storage (Some student_session)
        (election\<lparr>tbl_users := []\<rparr>) \<lparr>req_candidateId = 10, req_positionId = 2\<rparr>)
      = (404, Message ''User not found'')
   \<and> fst (post_votes int32_vote_schema table_storage None (election\<lparr>tbl_users := []\<rparr>)
        \<lparr>req_candidateId = 10, req_positionId = 2\<rparr>)
      = (401, Message ''Not authenticated'')"
  by (simp add: post_votes_def table_storage_def storage_def election_def
        student_session_def president_def treasurer_def alice_def bob_def)

text \<open>
  C4, amended. For a submission whose position and candidate exist while the candidate
  belongs to another position: without a session user it fails with 401, with a session
  user the store does not return it fails with 404, and otherwise it fails with 400
  "Candidate is not for this position". In each case session and store are left as
  they were, so no vote is created.
\<close>

theorem post_votes_inconsistent:
  assumes "getPosition st s (req_positionId req) = Some position"
    and "getCandidate st s (req_candidateId req) = Some candidate"
    and "candidate_positionId candidate \<noteq> position_id position"
  shows "post_votes parse st sess s req =
           (case sess of
              None \<Rightarrow> ((401, Message ''Not authenticated''), sess, s)
            | Some user \<Rightarrow>
                (case getUser st s (sess_id user) of
                   None \<Rightarrow> ((404, Message ''User not found''), sess, s)
                 | Some userRecord \<Rightarrow>
                     ((400, Message ''Candidate is not for this position''), sess, s)))"
  using assms by (simp add: post_votes_def split: option.split)

theorem post_votes_inconsistent_witness:
  "getPosition table_storage election 2 = Some treasurer
   \<and> getCandidate table_storage election 10 = Some alice
   \<and> candidate_positionId alice \<noteq> position_id treasurer
   \<and> getUser table_storage election (sess_id student_session) = Some student
   \<and> post_votes int32_vote_schema table_storage (Some student_session) election
        \<lparr>req_candidateId = 10, req_positionId = 2\<rparr>
      = ((400, Message ''Candidate is not for this position''),
         Some student_session, election)"
proof -
  have p: "getPosition table_storage election
             (req_positionId \<lparr>req_candidateId = 10, req_positionId = 2\<rparr>) = Some treasurer"
    by (simp add: table_storage_def election_def president_def treasurer_def)
  have c: "getCandidate table_storage election
             (req_candidateId \<lparr>req_candidateId = 10, req_positionId = 2\<rparr>) = Some alice"
    by (simp add: table_storage_def election_def alice_def)
  have m: "candidate_positionId alice \<noteq> position_id treasurer"
    by (simp add: alice_def treasurer_def)
  have u: "getUser table_storage election (sess_id student_session) = Some student"
    by (simp add: table_storage_def election_def student_session_def student_def)
  from post_votes_inconsistent
         [OF p c m, of int32_vote_schema "Some student_session"] u p c m
  show ?thesis by simp
qed

section \<open>The answers of the vote handler and its writes\<close>


text \<open>
  The only write of the handler is \<open>storage.createVote\<close>: the store it leaves is the one
  it was given, or one that \<open>createVote\<close> returned.
\<close>

lemma post_votes_store:
  "snd (snd (post_votes parse st sess s req)) = s
   \<or> (\<exists>voteData. snd (snd (post_votes parse st sess s req)) = fst (createVote st s voteData))"
  by (auto simp: post_votes_def split: option.split prod.split sum.split zodError.split)
     (metis fst_conv)

text \<open>With the shipped storage object no request changes the store.\<close>

lemma handle_storage_unchanged: "handle parseVote parseUser storage s r = s"
  by (simp add: handle_def post_votes_def post_users_def post_users_reset_vote_def
        storage_def
        split: prod.split request.split option.split sum.split zodError.split)

lemma serve_storage_unchanged: "serve parseVote parseUser storage s rs = s"
  unfolding serve_def by (induction rs) (simp_all add: handle_storage_unchanged)

text \<open>
  C1. From an empty vote table, after any sequence of vote submissions, user creations
  and administrator's resets of a user's vote, by any session users and with any
  schemas, no two votes of the vote table share user and position. With the shipped
  storage object this holds because no request changes the store: the vote table stays
  empty.
\<close>

theorem serve_unique_votes:
  assumes "tbl_votes s = []"
  shows "tbl_votes (serve parseVote parseUser storage s rs) = []
         \<and> unique_votes (tbl_votes (serve parseVote parseUser storage s rs))"
  using assms by (simp add: serve_storage_unchanged unique_votes_def)

theorem serve_unique_votes_witness:
  "tbl_votes election = []
   \<and> tbl_votes (serve int32_vote_schema user_body_schema storage election
        [(Some student_session, PostVotes \<lparr>req_candidateId = 10, req_positionId = 1\<rparr>),
         (Some student_session, PostVotes \<lparr>req_candidateId = 11, req_positionId = 1\<rparr>),
         (Some admin_session, PostUsers duplicate_body),
         (Some admin_session, PostResetVote (Some 2))]) = []
   \<and> unique_votes (tbl_votes (serve int32_vote_schema user_body_schema storage election
        [(Some student_session, PostVotes \<lparr>req_candidateId = 10, req_positionId = 1\<rparr>),
         (Some student_session, PostVotes \<lparr>req_candidateId = 11, req_positionId = 1\<rparr>),
         (Some admin_session, PostUsers duplicate_body),
         (Some admin_session, PostResetVote (Some 2))]))"
proof -
  have e: "tbl_votes election = []" by (simp add: election_def)
  from serve_unique_votes [OF e, of int32_vote_schema user_body_schema] e
  show ?thesis by (simp add: unique_votes_def)
qed


text \<open>
  With a store that returns the rows and appends the votes, the same second submission
  is answered 201, and a second vote of the user for the position is appended.
\<close>

lemma post_votes_table_storage_second_vote:
  "post_votes int32_vote_schema table_storage
        (Some (student_session\<lparr>sess_hasVoted := True\<rparr>))
        election_after_vote \<lparr>req_candidateId = 11, req_positionId = 1\<rparr>
      = ((201, VoteJson vote_for_bob),
         Some (student_session\<lparr>sess_hasVoted := True\<rparr>),
         election_after_vote\<lparr>tbl_votes := [vote_for_alice, vote_for_bob]\<rparr>)"
  by (simp add: post_votes_def int32_vote_schema_def int32_def table_storage_def
        storage_def election_after_vote_def student_session_def student_def
        president_def treasurer_def alice_def bob_def vote_for_alice_def
        vote_for_bob_def)




section \<open>Properties of the user handlers\<close>

text \<open>
  With the shipped \<open>resetUserVote\<close> an administrator's reset is answered 404 for every
  id, and the store is the one before.
\<close>

lemma post_users_reset_vote_storage:
  "sess_isAdmin user \<Longrightarrow>
   post_users_reset_vote storage (Some user) s (Some i)
     = ((404, Message ''User not found''), s)"
  by (simp add: post_users_reset_vote_def storage_def)

text \<open>
  C5 says that the reset removes the user's votes, clears the has-voted flag and lets
  the user vote again. With the shipped storage object it does none of it. The student
  has voted for Alice; the administrator resets the student's vote: the answer is 404,
  the vote is still in the store and the student is still marked as having voted; the
  student's next submission is answered 404 as well.
\<close>

theorem reset_vote_removes_nothing:
  "post_users_reset_vote storage (Some admin_session) election_after_vote (Some 2)
      = ((404, Message ''User not found''), election_after_vote)
   \<and> tbl_votes election_after_vote = [vote_for_alice]
   \<and> map user_hasVoted (tbl_users election_after_vote) = [True]
   \<and> post_votes parse storage (Some student_session) election_after_vote
        \<lparr>req_candidateId = 10, req_positionId = 1\<rparr>
      = ((404, Message ''User not found''), Some student_session, election_after_vote)"
  by (simp add: post_users_reset_vote_def post_votes_def storage_def admin_session_def
        election_after_vote_def student_def)




section \<open>Rounding\<close>

text \<open>
  The exponent brackets a positive rational between two powers of 2, so rounding moves
  it by at most half a unit in the last place: a relative error of \<open>2^-53\<close>. A
  percentage \<open>(n / d) * 100\<close> is rounded twice and stays within \<open>2^-51\<close> of the exact
  value, relatively.
\<close>

lemma pow2_powi: "pow2 e = 2 powi e"
  by (simp add: pow2_def power_int_def inverse_eq_divide power_one_over)

lemma pow2_pos: "0 < pow2 e"
  by (simp add: pow2_def)

lemma pow2_add: "pow2 (a + b) = pow2 a * pow2 b"
  by (simp add: pow2_powi power_int_add)

lemma pow2_nat: "0 \<le> e \<Longrightarrow> pow2 e = 2 ^ nat e"
  by (simp add: pow2_def)

lemma exponent_bounds:
  assumes "0 < x"
  shows "pow2 (exponent x) \<le> x \<and> x < pow2 (exponent x + 1)"
proof -
  obtain p q where pq: "quotient_of x = (p, q)" by force
  then have q: "0 < q" and x: "x = of_int p / of_int q"
    by (simp_all add: quotient_of_denom_pos quotient_of_div)
  from assms q x have p: "0 < p"
    by (simp add: zero_less_divide_iff)
  define bp where "bp = bitlen p"
  define bq where "bq = bitlen q"
  from bitlen_bounds [OF p] have p1: "2 ^ nat (bp - 1) \<le> p" and p2: "p < 2 ^ nat bp"
    by (simp_all add: bp_def)
  from bitlen_bounds [OF q] have q1: "2 ^ nat (bq - 1) \<le> q" and q2: "q < 2 ^ nat bq"
    by (simp_all add: bq_def)
  have bp1: "1 \<le> bp" using p by (auto simp: bp_def bitlen_alt_def)
  have bq1: "1 \<le> bq" using q by (auto simp: bq_def bitlen_alt_def)
  have rp1: "pow2 (bp - 1) \<le> of_int p"
  proof -
    have "(of_int (2 ^ nat (bp - 1)) :: rat) \<le> of_int p" using p1 by (simp only: of_int_le_iff)
    then show ?thesis using bp1 by (simp add: pow2_nat)
  qed
  have rp2: "of_int p < pow2 bp"
  proof -
    have "(of_int p :: rat) < of_int (2 ^ nat bp)" using p2 by (simp only: of_int_less_iff)
    then show ?thesis using bp1 by (simp add: pow2_nat)
  qed
  have rq1: "pow2 (bq - 1) \<le> of_int q"
  proof -
    have "(of_int (2 ^ nat (bq - 1)) :: rat) \<le> of_int q" using q1 by (simp only: of_int_le_iff)
    then show ?thesis using bq1 by (simp add: pow2_nat)
  qed
  have rq2: "of_int q < pow2 bq"
  proof -
    have "(of_int q :: rat) < of_int (2 ^ nat bq)" using q2 by (simp only: of_int_less_iff)
    then show ?thesis using bq1 by (simp add: pow2_nat)
  qed
  have qpos: "(0::rat) < of_int q" using q by simp
  have lo: "pow2 (bp - bq - 1) \<le> x"
  proof -
    have "pow2 (bp - bq - 1) * pow2 bq = pow2 (bp - 1)"
      by (simp add: pow2_add [symmetric])
    then have "pow2 (bp - bq - 1) * of_int q \<le> pow2 (bp - 1)"
      using rq2 pow2_pos [of "bp - bq - 1"]
      by (metis less_eq_rat_def mult_le_cancel_left_pos)
    with rp1 have "pow2 (bp - bq - 1) * of_int q \<le> of_int p" by simp
    then show ?thesis using qpos by (simp add: x pos_le_divide_eq)
  qed
  have hi: "x < pow2 (bp - bq + 1)"
  proof -
    have "pow2 (bp - bq + 1) * pow2 (bq - 1) = pow2 bp"
      by (simp add: pow2_add [symmetric])
    then have "pow2 bp \<le> pow2 (bp - bq + 1) * of_int q"
      using rq1 pow2_pos [of "bp - bq + 1"]
      by (metis mult_le_cancel_left_pos)
    with rp2 have "of_int p < pow2 (bp - bq + 1) * of_int q" by simp
    then show ?thesis using qpos by (simp add: x pos_divide_less_eq)
  qed
  show ?thesis
  proof (cases "pow2 (bp - bq) \<le> x")
    case True
    then have "exponent x = bp - bq"
      by (simp add: exponent_def pq bp_def bq_def Let_def)
    with True hi show ?thesis by simp
  next
    case False
    then have "exponent x = bp - bq - 1"
      by (simp add: exponent_def pq bp_def bq_def Let_def)
    with False lo show ?thesis by simp
  qed
qed

lemma round_to_double_error:
  assumes "0 < x"
  shows "\<bar>round_to_double x - x\<bar> \<le> x / 2 ^ 53"
proof -
  define ulp where "ulp = pow2 (exponent x - 52)"
  define q where "q = x / ulp"
  define n where "n = \<lfloor>q\<rfloor>"
  define r where "r = q - of_int n"
  define m where "m = (if r < 1 / 2 then n else if 1 / 2 < r then n + 1
                       else if even n then n else n + 1)"
  have ulp_pos: "0 < ulp" by (simp add: ulp_def pow2_pos)
  have rd: "round_to_double x = of_int m * ulp"
    using assms
    by (simp add: round_to_double_def Let_def ulp_def q_def n_def r_def m_def)
  have r0: "0 \<le> r" and r1: "r < 1"
    by (simp_all add: r_def n_def) linarith+
  have mq: "\<bar>of_int m - q\<bar> \<le> 1 / 2"
    using r0 r1 by (auto simp: m_def r_def abs_if split: if_splits)
  have xq: "x = q * ulp" using ulp_pos by (simp add: q_def)
  have "q * ulp = x" using xq by simp
  then have "of_int m * ulp - x = (of_int m - q) * ulp"
    by (simp add: left_diff_distrib)
  then have "\<bar>round_to_double x - x\<bar> = \<bar>of_int m - q\<bar> * ulp"
    using ulp_pos by (simp add: rd abs_mult)
  also have "\<dots> \<le> 1 / 2 * ulp"
    using mq ulp_pos by (simp add: mult_right_mono)
  also have "ulp = pow2 (exponent x) / 2 ^ 52"
    by (simp add: ulp_def pow2_powi power_int_diff)
  also have "1 / 2 * (pow2 (exponent x) / 2 ^ 52) \<le> x / 2 ^ 53"
    using exponent_bounds [OF assms] by simp
  finally show ?thesis .
qed


lemma round_to_double_zero: "round_to_double 0 = 0"
  by (simp add: round_to_double_def)

lemma round_to_double_pos:
  assumes "0 < x"
  shows "0 < round_to_double x"
proof -
  have "x / 2 ^ 53 < x" using assms by (simp add: divide_less_eq)
  with round_to_double_error [OF assms] show ?thesis by linarith
qed

lemma percentage_accuracy:
  assumes "0 < t"
  shows "\<exists>r. js_mul (js_div v t) (Finite 100) = Finite r
           \<and> \<bar>r - 100 * of_nat v / of_nat t\<bar> \<le> (100 * of_nat v / of_nat t) / 2 ^ 51"
proof (cases "v = 0")
  case True
  with assms show ?thesis
    by (simp add: js_div_def round_to_double_zero)
next
  case False
  define y :: rat where "y = of_nat v / of_nat t"
  define a where "a = round_to_double y"
  define r where "r = round_to_double (a * 100)"
  define u :: rat where "u = 1 / 2 ^ 53"
  from False assms have y: "0 < y" by (simp add: y_def)
  from round_to_double_error [OF y] have ay: "\<bar>a - y\<bar> \<le> y * u"
    by (simp add: a_def u_def)
  from round_to_double_pos [OF y] have a: "0 < a" by (simp add: a_def)
  then have a100: "0 < a * 100" by simp
  from round_to_double_error [OF a100] have ra: "\<bar>r - a * 100\<bar> \<le> a * 100 * u"
    by (simp add: r_def u_def)
  have u: "0 < u" "u \<le> 1" by (simp_all add: u_def)
  from ay have a_le: "a \<le> y + y * u" by linarith
  have "a * 100 * u \<le> (y + y * u) * 100 * u"
    using a_le u by (simp add: mult_right_mono)
  with ra have "\<bar>r - a * 100\<bar> \<le> (y + y * u) * 100 * u" by linarith
  moreover have "\<bar>a * 100 - y * 100\<bar> \<le> y * u * 100"
  proof -
    have e1: "a * 100 - y * 100 = (a - y) * 100" by (simp only: left_diff_distrib)
    have e2: "\<bar>(a - y) * 100\<bar> = \<bar>a - y\<bar> * 100" by (simp only: abs_mult abs_numeral)
    from ay have "\<bar>a - y\<bar> * 100 \<le> y * u * 100" by simp
    then show ?thesis unfolding e1 e2 .
  qed
  ultimately have "\<bar>r - y * 100\<bar> \<le> (y + y * u) * 100 * u + y * u * 100" by linarith
  also have "\<dots> = 100 * y * (u * (2 + u))" by (simp add: algebra_simps)
  also have "u * (2 + u) \<le> 1 / 2 ^ 51" by (simp add: u_def)
  finally have "\<bar>r - y * 100\<bar> \<le> 100 * y * (1 / 2 ^ 51)"
    using y by (simp add: mult_left_mono)
  moreover have "js_mul (js_div v t) (Finite 100) = Finite r"
    using assms by (simp add: js_div_def r_def a_def y_def)
  ultimately show ?thesis by (simp add: y_def mult.commute)
qed

text \<open>
  Two values as JavaScript prints them: \<open>(4 / 10) * 100\<close> is \<open>40\<close>, and
  \<open>(7 / 100) * 100\<close> is \<open>7.000000000000001\<close>, one unit in the last place above 7.
\<close>

lemma js_percentage_exact: "js_mul (js_div 4 10) (Finite 100) = Finite 40"
  by code_simp

lemma js_percentage_rounded: "js_mul (js_div 7 100) (Finite 100) = Finite (7 + 1 / 2 ^ 50)"
  by code_simp

section \<open>Properties of the statistics\<close>

text \<open>
  C6. Over the users that are not administrators, the participation rate is the number
  of those who have voted, divided by their number, times 100, in the arithmetic of
  JavaScript numbers; it is a finite number within \<open>2^-51\<close>, relatively, of the exact
  quotient times 100. When there is no such user it is the number 0; it is never
  \<open>NaN\<close> or \<open>Infinity\<close>. An administrator's request is answered 200 with the rate in
  the summary of the report.
\<close>

theorem participationRate_spec:
  "participationRate users =
     (let students = filter (\<lambda>u. \<not> user_isAdmin u) users
      in if length students = 0 then Finite 0
         else js_mul (js_div (length (filter user_hasVoted students)) (length students))
                (Finite 100))
   \<and> ((\<forall>u \<in> set users. user_isAdmin u) \<longrightarrow> participationRate users = Finite 0)
   \<and> participationRate users \<noteq> NaN
   \<and> participationRate users \<noteq> Infinity
   \<and> (0 < totalStudents users \<longrightarrow>
        (\<exists>r. participationRate users = Finite r \<and>
           \<bar>r - 100 * of_nat (votedStudents users) / of_nat (totalStudents users)\<bar>
             \<le> (100 * of_nat (votedStudents users) / of_nat (totalStudents users)) / 2 ^ 51))
   \<and> (sess_isAdmin admin \<longrightarrow>
        (\<exists>report. get_votes_stats st (Some admin) s = (200, StatsJson report) \<and>
           sum_participationRate (stats_summary report) = participationRate (getAllUsers st s)))"
proof (intro conjI)
  show "participationRate users =
     (let students = filter (\<lambda>u. \<not> user_isAdmin u) users
      in if length students = 0 then Finite 0
         else js_mul (js_div (length (filter user_hasVoted students)) (length students))
                (Finite 100))"
    by (simp add: participationRate_def totalStudents_def votedStudents_def Let_def)
  show "(\<forall>u \<in> set users. user_isAdmin u) \<longrightarrow> participationRate users = Finite 0"
    by (simp add: participationRate_def totalStudents_def)
  show "participationRate users \<noteq> NaN"
    by (simp add: participationRate_def js_div_def)
  show "participationRate users \<noteq> Infinity"
    by (simp add: participationRate_def js_div_def)
  show "0 < totalStudents users \<longrightarrow>
        (\<exists>r. participationRate users = Finite r \<and>
           \<bar>r - 100 * of_nat (votedStudents users) / of_nat (totalStudents users)\<bar>
             \<le> (100 * of_nat (votedStudents users) / of_nat (totalStudents users)) / 2 ^ 51)"
    using percentage_accuracy [of "totalStudents users" "votedStudents users"]
    by (simp add: participationRate_def)
  show "sess_isAdmin admin \<longrightarrow>
        (\<exists>report. get_votes_stats st (Some admin) s = (200, StatsJson report) \<and>
           sum_participationRate (stats_summary report) = participationRate (getAllUsers st s))"
    by (simp add: get_votes_stats_def vote_stats_def)
qed

theorem participationRate_spec_witness:
  "(\<forall>u \<in> set [hardcoded_admin]. user_isAdmin u) = True
   \<and> participationRate [hardcoded_admin] = Finite 0
   \<and> participationRate [] = Finite 0
   \<and> totalStudents school = 10 \<and> votedStudents school = 4
   \<and> participationRate school = Finite 40
   \<and> (\<exists>r. participationRate school = Finite r \<and> \<bar>r - 40\<bar> \<le> 40 / 2 ^ 51)
   \<and> sess_isAdmin admin_session
   \<and> (\<exists>report.
         get_votes_stats (storage :: tables storage_api) (Some admin_session) election
           = (200, StatsJson report)
         \<and> sum_participationRate (stats_summary report) = Finite 0)"
proof -
  note at_admin =
    participationRate_spec
      [of "[hardcoded_admin]" admin_session "storage :: tables storage_api" election]
  note at_school =
    participationRate_spec
      [of school admin_session "storage :: tables storage_api" election]
  have a: "\<forall>u \<in> set [hardcoded_admin]. user_isAdmin u"
    by (simp add: hardcoded_admin_def)
  from at_admin a have z: "participationRate [hardcoded_admin] = Finite 0" by blast
  have e: "participationRate [] = Finite 0"
    by (simp add: participationRate_def totalStudents_def)
  have t: "totalStudents school = 10" by code_simp
  have v: "votedStudents school = 4" by code_simp
  have s: "participationRate school = Finite 40" by code_simp
  from at_school
  have "0 < totalStudents school \<longrightarrow>
          (\<exists>r. participationRate school = Finite r \<and>
             \<bar>r - 100 * of_nat (votedStudents school) / of_nat (totalStudents school)\<bar>
               \<le> (100 * of_nat (votedStudents school) / of_nat (totalStudents school)) / 2 ^ 51)"
    by blast
  then have b: "\<exists>r. participationRate school = Finite r \<and> \<bar>r - 40\<bar> \<le> 40 / 2 ^ 51"
    unfolding t v by simp
  have i: "sess_isAdmin admin_session" by (simp add: admin_session_def)
  have u: "getAllUsers (storage :: tables storage_api) election = []"
    by (simp add: storage_def)
  from at_admin i
  have "\<exists>report.
          get_votes_stats (storage :: tables storage_api) (Some admin_session) election
            = (200, StatsJson report)
          \<and> sum_participationRate (stats_summary report)
              = participationRate (getAllUsers (storage :: tables storage_api) election)"
    by blast
  then have g: "\<exists>report.
          get_votes_stats (storage :: tables storage_api) (Some admin_session) election
            = (200, StatsJson report)
          \<and> sum_participationRate (stats_summary report) = Finite 0"
    unfolding u e .
  from a z e t v s b i g show ?thesis by simp
qed

text \<open>
  The votes of a candidate for a position, as the report finds them in the tuples of
  \<open>getVoteCounts\<close>: 0 when no tuple is of the position and the candidate, and the count
  of the first tuple that is.
\<close>

lemma voteCount_of_none:
  assumes "\<forall>vc \<in> set voteCounts.
             \<not> (vc_positionId vc = position_id position
                \<and> vc_candidateId vc = candidate_id candidate)"
  shows "voteCount_of voteCounts position candidate = 0"
proof -
  from assms
  have "find (\<lambda>vc. vc_positionId vc = position_id position
                    \<and> vc_candidateId vc = candidate_id candidate) voteCounts = None"
    by (simp add: find_None_iff)
  then show ?thesis by (simp add: voteCount_of_def)
qed

lemma voteCount_of_first:
  assumes "voteCounts = ys @ vc # zs"
    and "vc_positionId vc = position_id position"
    and "vc_candidateId vc = candidate_id candidate"
    and "\<forall>y \<in> set ys.
           \<not> (vc_positionId y = position_id position
              \<and> vc_candidateId y = candidate_id candidate)"
  shows "voteCount_of voteCounts position candidate = vc_count vc"
proof -
  from assms
  have "find (\<lambda>vc. vc_positionId vc = position_id position
                    \<and> vc_candidateId vc = candidate_id candidate) voteCounts = Some vc"
    by (induction ys arbitrary: voteCounts) auto
  then show ?thesis by (simp add: voteCount_of_def)
qed

text \<open>
  C7. An administrator's request is answered 200 with a report whose list
  \<open>votesByCandidateAndPosition\<close> has one entry for every position of \<open>getAllPositions\<close>,
  in their order; the entry of a position lists the candidates of \<open>getAllCandidates\<close>
  whose \<open>positionId\<close> is the id of the position, in their order. The votes of a
  candidate are 0 when \<open>getVoteCounts\<close> has no tuple of the position and the
  candidate, and the count of the first such tuple otherwise. The percentage of a
  candidate is these votes divided by the number of the users of \<open>getAllUsers\<close> that
  are not administrators, times 100, in the arithmetic of JavaScript numbers, and the
  number 0 when there is no such user. The school levels of position, candidate and
  users are not looked at.
\<close>

theorem candidate_percentage_over_totalStudents:
  assumes "sess_isAdmin admin"
  shows "\<exists>report.
           get_votes_stats st (Some admin) s = (200, StatsJson report)
           \<and> list_all2
               (\<lambda>position entry.
                  pc_positionId entry = position_id position
                  \<and> pc_positionName entry = position_name position
                  \<and> list_all2
                      (\<lambda>candidate result.
                         cv_candidateId result = candidate_id candidate
                         \<and> cv_candidateName result = candidate_name candidate
                         \<and> ((\<forall>vc \<in> set (getVoteCounts st s).
                                \<not> (vc_positionId vc = position_id position
                                   \<and> vc_candidateId vc = candidate_id candidate))
                             \<longrightarrow> cv_votes result = 0)
                         \<and> (\<forall>ys vc zs.
                               getVoteCounts st s = ys @ vc # zs
                               \<and> vc_positionId vc = position_id position
                               \<and> vc_candidateId vc = candidate_id candidate
                               \<and> (\<forall>y \<in> set ys.
                                     \<not> (vc_positionId y = position_id position
                                        \<and> vc_candidateId y = candidate_id candidate))
                               \<longrightarrow> cv_votes result = vc_count vc)
                         \<and> cv_percentage result =
                             (if length (filter (\<lambda>u. \<not> user_isAdmin u) (getAllUsers st s)) = 0
                              then Finite 0
                              else js_mul
                                     (js_div (cv_votes result)
                                        (length (filter (\<lambda>u. \<not> user_isAdmin u)
                                                   (getAllUsers st s))))
                                     (Finite 100)))
                      (filter (\<lambda>c. candidate_positionId c = position_id position)
                         (getAllCandidates st s))
                      (pc_candidates entry))
               (getAllPositions st s)
               (stats_votesByCandidateAndPosition report)"
proof -
  have "get_votes_stats st (Some admin) s =
          (200, StatsJson
             (vote_stats (getVoteCounts st s) (getAllPositions st s)
                (getAllUsers st s) (getAllCandidates st s)))"
    using assms by (simp add: get_votes_stats_def)
  moreover
  have "list_all2
               (\<lambda>position entry.
                  pc_positionId entry = position_id position
                  \<and> pc_positionName entry = position_name position
                  \<and> list_all2
                      (\<lambda>candidate result.
                         cv_candidateId result = candidate_id candidate
                         \<and> cv_candidateName result = candidate_name candidate
                         \<and> ((\<forall>vc \<in> set (getVoteCounts st s).
                                \<not> (vc_positionId vc = position_id position
                                   \<and> vc_candidateId vc = candidate_id candidate))
                             \<longrightarrow> cv_votes result = 0)
                         \<and> (\<forall>ys vc zs.
                               getVoteCounts st s = ys @ vc # zs
                               \<and> vc_positionId vc = position_id position
                               \<and> vc_candidateId vc = candidate_id candidate
                               \<and> (\<forall>y \<in> set ys.
                                     \<not> (vc_positionId y = position_id position
                                        \<and> vc_candidateId y = candidate_id candidate))
                               \<longrightarrow> cv_votes result = vc_count vc)
                         \<and> cv_percentage result =
                             (if length (filter (\<lambda>u. \<not> user_isAdmin u) (getAllUsers st s)) = 0
                              then Finite 0
                              else js_mul
                                     (js_div (cv_votes result)
                                        (length (filter (\<lambda>u. \<not> user_isAdmin u)
                                                   (getAllUsers st s))))
                                     (Finite 100)))
                      (filter (\<lambda>c. candidate_positionId c = position_id position)
                         (getAllCandidates st s))
                      (pc_candidates entry))
               (getAllPositions st s)
               (stats_votesByCandidateAndPosition
                  (vote_stats (getVoteCounts st s) (getAllPositions st s)
                     (getAllUsers st s) (getAllCandidates st s)))"
    unfolding vote_stats_def votesByCandidateAndPosition_def
    by (simp add: list_all2_map2 list_all2_same Let_def totalStudents_def
          voteCount_of_none)
       (blast intro: voteCount_of_first)
  ultimately show ?thesis by blast
qed

theorem candidate_percentage_over_totalStudents_witness:
  "sess_isAdmin admin_session
   \<and> getAllPositions rows_storage school_rows = [president]
   \<and> getAllCandidates rows_storage school_rows = [alice, bob]
   \<and> getVoteCounts rows_storage school_rows =
       [\<lparr>vc_positionId = 2, vc_candidateId = 10, vc_count = 7\<rparr>,
        \<lparr>vc_positionId = 1, vc_candidateId = 10, vc_count = 4\<rparr>]
   \<and> length (filter (\<lambda>u. \<not> user_isAdmin u) (getAllUsers rows_storage school_rows)) = 10
   \<and> length (filter (\<lambda>u. user_schoolLevel u = Some ''seniorHigh'')
               (getAllUsers rows_storage school_rows)) = 5
   \<and> position_schoolLevels president = [''seniorHigh'']
   \<and> (\<exists>report.
         get_votes_stats rows_storage (Some admin_session) school_rows
           = (200, StatsJson report)
         \<and> stats_votesByCandidateAndPosition report =
             [\<lparr>pc_positionId = 1, pc_positionName = ''President'',
               pc_candidates =
                 [\<lparr>cv_candidateId = 10, cv_candidateName = ''Alice'', cv_votes = 4,
                   cv_percentage = Finite 40\<rparr>,
                  \<lparr>cv_candidateId = 11, cv_candidateName = ''Bob'', cv_votes = 0,
                   cv_percentage = Finite 0\<rparr>]\<rparr>])"
proof -
  have i: "sess_isAdmin admin_session" by (simp add: admin_session_def)
  have p: "getAllPositions rows_storage school_rows = [president]"
    by (simp add: rows_storage_def school_rows_def)
  have c: "getAllCandidates rows_storage school_rows = [alice, bob]"
    by (simp add: rows_storage_def school_rows_def)
  have v: "getVoteCounts rows_storage school_rows =
       [\<lparr>vc_positionId = 2, vc_candidateId = 10, vc_count = 7\<rparr>,
        \<lparr>vc_positionId = 1, vc_candidateId = 10, vc_count = 4\<rparr>]"
    by (simp add: rows_storage_def school_rows_def tally_def)
  have u: "getAllUsers rows_storage school_rows = school"
    by (simp add: rows_storage_def school_rows_def)
  have t: "length (filter (\<lambda>u. \<not> user_isAdmin u) school) = 10" by code_simp
  have l: "length (filter (\<lambda>u. user_schoolLevel u = Some ''seniorHigh'') school) = 5"
    by code_simp
  have k: "position_schoolLevels president = [''seniorHigh'']"
    by (simp add: president_def)
  have r: "votesByCandidateAndPosition tally [president] school [alice, bob] =
             [\<lparr>pc_positionId = 1, pc_positionName = ''President'',
               pc_candidates =
                 [\<lparr>cv_candidateId = 10, cv_candidateName = ''Alice'', cv_votes = 4,
                   cv_percentage = Finite 40\<rparr>,
                  \<lparr>cv_candidateId = 11, cv_candidateName = ''Bob'', cv_votes = 0,
                   cv_percentage = Finite 0\<rparr>]\<rparr>]"
    by code_simp
  have g: "get_votes_stats rows_storage (Some admin_session) school_rows =
             (200, StatsJson (vote_stats tally [president] school [alice, bob]))"
    by (simp add: get_votes_stats_def rows_storage_def school_rows_def admin_session_def)
  from candidate_percentage_over_totalStudents
         [OF i, of rows_storage school_rows]
  obtain report where
    "get_votes_stats rows_storage (Some admin_session) school_rows
       = (200, StatsJson report)"
    by blast
  with g have "report = vote_stats tally [president] school [alice, bob]" by simp
  with r have "stats_votesByCandidateAndPosition report =
             [\<lparr>pc_positionId = 1, pc_positionName = ''President'',
               pc_candidates =
                 [\<lparr>cv_candidateId = 10, cv_candidateName = ''Alice'', cv_votes = 4,
                   cv_percentage = Finite 40\<rparr>,
                  \<lparr>cv_candidateId = 11, cv_candidateName = ''Bob'', cv_votes = 0,
                   cv_percentage = Finite 0\<rparr>]\<rparr>]"
    by (simp add: vote_stats_def)
  with \<open>get_votes_stats rows_storage (Some admin_session) school_rows
       = (200, StatsJson report)\<close>
  have x: "\<exists>report.
         get_votes_stats rows_storage (Some admin_session) school_rows
           = (200, StatsJson report)
         \<and> stats_votesByCandidateAndPosition report =
             [\<lparr>pc_positionId = 1, pc_positionName = ''President'',
               pc_candidates =
                 [\<lparr>cv_candidateId = 10, cv_candidateName = ''Alice'', cv_votes = 4,
                   cv_percentage = Finite 40\<rparr>,
                  \<lparr>cv_candidateId = 11, cv_candidateName = ''Bob'', cv_votes = 0,
                   cv_percentage = Finite 0\<rparr>]\<rparr>]"
    by blast
  from i p c v t l k x show ?thesis unfolding u by blast
qed

end
